theory Spec2Isabelle
  imports Main
begin

section \<open>The web scraping tool (search\_tool/Agent/scraping\_tool.py)\<close>

text \<open>
  A shallow embedding of \<^verbatim>\<open>WebScrapingTool\<close>: the two scraping paths
  \<^verbatim>\<open>_scrape_with_chromium\<close> and \<^verbatim>\<open>_scrape_with_aiohttp\<close>, the orchestration
  \<^verbatim>\<open>_process_scraping\<close> and the entry points \<^verbatim>\<open>_run\<close> and \<^verbatim>\<open>_arun\<close>.

  The browser loader, the document transformer, the HTTP client and the HTML parser are
  libraries outside the repository. They appear as parameters: whatever they return or
  raise, the code of the repository is modelled on top of it.
\<close>

subsection \<open>Python strings\<close>

text \<open>
  A Python \<^verbatim>\<open>str\<close> is a sequence of Unicode code points and \<^verbatim>\<open>len\<close> counts
  code points, so a string is a list of code points here. \<open>lit\<close> embeds an ASCII
  literal; the pictographs of the source's messages are written by their code points.
\<close>

type_synonym pystr = "nat list"

definition lit :: "string \<Rightarrow> pystr" where
  "lit s = map of_char s"

definition nl :: pystr where
  "nl = [10]"

text \<open>\<^verbatim>\<open>str(n)\<close> for a non-negative integer, as \<^verbatim>\<open>{len(content)}\<close> renders it.\<close>

fun str_nat :: "nat \<Rightarrow> pystr" where
  "str_nat n = (if n < 10 then [48 + n] else str_nat (n div 10) @ [48 + n mod 10])"

declare str_nat.simps [simp del]

text \<open>
  \<^verbatim>\<open>s[:n]\<close> for a Python integer \<open>n\<close>: a negative bound counts from the end, and a
  bound beyond either end is clipped.
\<close>

definition slice_to :: "'a list \<Rightarrow> int \<Rightarrow> 'a list" where
  "slice_to xs n =
     (if 0 \<le> n then take (nat n) xs else take (length xs - nat (- n)) xs)"

text \<open>
  \<^verbatim>\<open>str.isspace\<close> on one character, and \<^verbatim>\<open>str.strip()\<close>, which removes the
  whitespace at both ends.
\<close>

definition isspace :: "nat \<Rightarrow> bool" where
  "isspace c =
     ((9 \<le> c \<and> c \<le> 13) \<or> (28 \<le> c \<and> c \<le> 32) \<or> c = 133 \<or> c = 160 \<or> c = 5760
      \<or> (8192 \<le> c \<and> c \<le> 8202) \<or> c = 8232 \<or> c = 8233 \<or> c = 8239 \<or> c = 8287
      \<or> c = 12288)"

definition strip :: "pystr \<Rightarrow> pystr" where
  "strip s = rev (dropWhile isspace (rev (dropWhile isspace s)))"

text \<open>\<^verbatim>\<open>sep.join(parts)\<close>.\<close>

fun join :: "pystr \<Rightarrow> pystr list \<Rightarrow> pystr" where
  "join sep [] = []"
| "join sep [s] = s"
| "join sep (s # t # ts) = s @ sep @ join sep (t # ts)"

subsection \<open>Exceptions, the log and the outside world\<close>

text \<open>
  An exception is a value. Every exception of the model is an instance of Python's
  \<^verbatim>\<open>Exception\<close>, the class the two \<^verbatim>\<open>except\<close> clauses of the source name; each
  carries the text \<^verbatim>\<open>str(e)\<close> gives. \<open>Raised\<close> is an exception of a library, of
  whatever class.
\<close>

datatype exn =
    Exception pystr
  | ValueError pystr
  | RuntimeError pystr
  | ClientResponseError nat pystr
  | Raised pystr

fun str_exn :: "exn \<Rightarrow> pystr" where
  "str_exn (Exception m) = m"
| "str_exn (ValueError m) = m"
| "str_exn (RuntimeError m) = m"
| "str_exn (ClientResponseError st m) = m"
| "str_exn (Raised m) = m"

text \<open>
  What a call leaves behind, in order: the records handed to the logger and the calls
  made to the libraries.
\<close>

datatype event =
    Info pystr
  | Warning pystr
  | ChromiumLoad "pystr list"
  | TransformDocuments "pystr list" "pystr list"
  | HttpGet int pystr pystr

text \<open>
  The response of the HTTP client: its status, the text of the error that
  \<^verbatim>\<open>raise_for_status\<close> builds from it, and what \<^verbatim>\<open>await response.text()\<close> gives.
\<close>

record response =
  status :: nat
  status_error :: pystr
  text_body :: "exn + pystr"

text \<open>
  The world of one call. A document of the loader or of the transformer is modelled by
  its \<^verbatim>\<open>page_content\<close>. \<open>session_get\<close> takes the total timeout, the
  \<^verbatim>\<open>User-Agent\<close> header and the URL. \<open>duration_2f\<close> is the elapsed time between the
  two readings of the clock as \<^verbatim>\<open>{duration:.2f}\<close> renders it: the clock and the
  floating-point formatting are outside the model.
\<close>

record env =
  loader_load :: "pystr list \<Rightarrow> exn + pystr list"
  transform_documents :: "pystr list \<Rightarrow> pystr list \<Rightarrow> exn + pystr list"
  session_get :: "int \<Rightarrow> pystr \<Rightarrow> pystr \<Rightarrow> exn + response"
  duration_2f :: pystr

text \<open>
  The tree that \<^verbatim>\<open>BeautifulSoup(html_content, 'html.parser')\<close> builds. A
  \<open>NavigableString\<close> is a text node; \<open>Comment\<close> stands for every string class that
  \<^verbatim>\<open>get_text\<close> leaves out (comments, doctypes, declarations). Attributes play no part
  in the code and are left out.
\<close>

datatype node =
    Tag pystr "node list"
  | NavigableString pystr
  | Comment pystr

subsection \<open>The tool\<close>

text \<open>\<^verbatim>\<open>get_default_tags\<close>.\<close>

definition get_default_tags :: "pystr list" where
  "get_default_tags =
     [lit ''p'', lit ''li'', lit ''div'', lit ''a'', lit ''span'', lit ''h1'', lit ''h2'',
      lit ''h3'', lit ''h4'', lit ''h5'', lit ''h6'', lit ''pre'', lit ''code'', lit ''table'']"

text \<open>The fields of \<^verbatim>\<open>WebScrapingTool\<close> and its constructor.\<close>

record tool =
  max_content_length :: int
  timeout :: int
  user_agent :: pystr

definition default_user_agent :: pystr where
  "default_user_agent =
     lit ''Mozilla/5.0 (Windows NT 10.0; Win64; x64) AppleWebKit/537.36 (KHTML, like Gecko) Chrome/91.0.4472.124 Safari/537.36''"

definition WebScrapingTool :: "int \<Rightarrow> int \<Rightarrow> tool" where
  "WebScrapingTool max_len tmo =
     \<lparr>max_content_length = max_len, timeout = tmo, user_agent = default_user_agent\<rparr>"

definition default_tool :: tool where
  "default_tool = WebScrapingTool 20000 20"

text \<open>
  \<^verbatim>\<open>_scrape_with_chromium\<close>: load the URL in the browser, fail on an empty list of
  documents, transform with the allow-list of tags, fail on an empty list again, return
  the first document's content.
\<close>

definition scrape_with_chromium ::
  "env \<Rightarrow> pystr \<Rightarrow> pystr list \<Rightarrow> event list \<times> (exn + pystr)" where
  "scrape_with_chromium env url tags_to_extract =
     (let started =
            [Info ([127760] @ lit '' Attempting Chromium scrape for: '' @ url),
             ChromiumLoad [url]]
      in case loader_load env [url] of
           Inl e \<Rightarrow> (started, Inl e)
         | Inr html_docs \<Rightarrow>
             if html_docs = []
             then (started, Inl (Exception (lit ''Chromium loader failed to get any documents.'')))
             else
               (let transformed = started @ [TransformDocuments html_docs tags_to_extract]
                in case transform_documents env html_docs tags_to_extract of
                     Inl e \<Rightarrow> (transformed, Inl e)
                   | Inr [] \<Rightarrow>
                       (transformed,
                        Inl (Exception (lit ''BeautifulSoupTransformer failed to extract content.'')))
                   | Inr (doc # _) \<Rightarrow> (transformed, Inr doc)))"

text \<open>
  \<^verbatim>\<open>soup([...])\<close> finds every tag with one of the names, at any depth, and
  \<^verbatim>\<open>decompose\<close> removes each with all it contains: what is left is the tree without
  the subtrees rooted at such a tag.
\<close>

fun named :: "pystr list \<Rightarrow> node \<Rightarrow> bool" where
  "named names (Tag n cs) = (n \<in> set names)"
| "named names (NavigableString s) = False"
| "named names (Comment s) = False"

fun decompose :: "pystr list \<Rightarrow> node \<Rightarrow> node" where
  "decompose names (Tag n cs) =
     Tag n (map (decompose names) (filter (\<lambda>c. \<not> named names c) cs))"
| "decompose names (NavigableString s) = NavigableString s"
| "decompose names (Comment s) = Comment s"

definition decompose_all :: "pystr list \<Rightarrow> node list \<Rightarrow> node list" where
  "decompose_all names soup =
     map (decompose names) (filter (\<lambda>c. \<not> named names c) soup)"

text \<open>
  \<^verbatim>\<open>get_text(separator, strip=True)\<close>: the text nodes in document order, each
  stripped, the empty ones dropped, joined by the separator.
\<close>

fun all_strings :: "node \<Rightarrow> pystr list" where
  "all_strings (Tag n cs) = concat (map all_strings cs)"
| "all_strings (NavigableString s) = [s]"
| "all_strings (Comment s) = []"

definition get_text :: "pystr \<Rightarrow> node list \<Rightarrow> pystr" where
  "get_text separator soup =
     join separator
       (filter (\<lambda>s. s \<noteq> []) (map strip (concat (map all_strings soup))))"

text \<open>
  \<^verbatim>\<open>_scrape_with_aiohttp\<close>: one GET; \<^verbatim>\<open>raise_for_status\<close> raises on a status of
  400 and above; the body is parsed, the five kinds of tags of line 89 (here
  \<open>non_content_tags\<close>) are removed and the text is extracted. \<open>html_parser\<close> is
  the parser of the library, a function of the body. The argument \<open>tags_to_extract\<close>
  is there as in the source.
\<close>

definition non_content_tags :: "pystr list" where
  "non_content_tags =
     [lit ''script'', lit ''style'', lit ''nav'', lit ''footer'', lit ''header'']"

definition scrape_with_aiohttp ::
  "(pystr \<Rightarrow> node list) \<Rightarrow> tool \<Rightarrow> env \<Rightarrow> pystr \<Rightarrow> pystr list \<Rightarrow> event list \<times> (exn + pystr)" where
  "scrape_with_aiohttp html_parser self env url tags_to_extract =
     (let started =
            [Info ([128260] @ lit '' Attempting aiohttp scrape for: '' @ url),
             HttpGet (timeout self) (user_agent self) url]
      in case session_get env (timeout self) (user_agent self) url of
           Inl e \<Rightarrow> (started, Inl e)
         | Inr response \<Rightarrow>
             if 400 \<le> status response
             then (started, Inl (ClientResponseError (status response) (status_error response)))
             else
               (case text_body response of
                  Inl e \<Rightarrow> (started, Inl e)
                | Inr html_content \<Rightarrow>
                    (let soup = html_parser html_content;
                         soup = decompose_all non_content_tags soup
                     in (started, Inr (get_text nl soup)))))"

text \<open>The three strings \<^verbatim>\<open>_process_scraping\<close> can return.\<close>

definition truncation_marker :: pystr where
  "truncation_marker = nl @ nl @ lit ''... (content truncated)''"

definition no_content_message :: "pystr \<Rightarrow> pystr \<Rightarrow> pystr" where
  "no_content_message url used_method =
     [10060] @ lit '' No content extracted from '' @ url @ lit '' using method ''
       @ used_method @ lit ''.''"

definition error_message :: "pystr \<Rightarrow> exn \<Rightarrow> pystr" where
  "error_message url e =
     [10060] @ lit '' Web scraping error for '' @ url @ lit '': '' @ str_exn e"

definition success_message :: "pystr \<Rightarrow> pystr \<Rightarrow> pystr \<Rightarrow> pystr \<Rightarrow> pystr" where
  "success_message url used_method duration content =
     nl @ lit ''**Website Scraped:** '' @ url @ nl
        @ lit ''**Method Used:** '' @ used_method @ nl
        @ lit ''**Duration:** '' @ duration @ lit '' seconds'' @ nl
        @ lit ''**Content Length:** '' @ str_nat (length content) @ lit '' characters'' @ nl
        @ lit ''**Content Extracted:**'' @ nl
        @ content @ nl"

text \<open>\<^verbatim>\<open>f"{method}"\<close> for the optional argument \<open>method\<close>.\<close>

fun format_method :: "pystr option \<Rightarrow> pystr" where
  "format_method None = lit ''None''"
| "format_method (Some m) = m"

text \<open>
  Lines 105 to 124 of \<^verbatim>\<open>_process_scraping\<close>: the choice of the path. The result is
  the pair of \<open>content\<close> and \<open>used_method\<close>, or the exception that leaves the
  \<^verbatim>\<open>if\<close> chain.
\<close>

definition choose_path ::
  "(pystr \<Rightarrow> node list) \<Rightarrow> tool \<Rightarrow> env \<Rightarrow> pystr \<Rightarrow> pystr list \<Rightarrow> pystr option
     \<Rightarrow> event list \<times> (exn + pystr \<times> pystr)" where
  "choose_path html_parser self env url tags_to_extract method =
     (if method = Some (lit ''auto'') then
        (case scrape_with_chromium env url tags_to_extract of
           (log1, Inr content) \<Rightarrow>
             (log1 @ [Info ([9989] @ lit '' Chromium scraping successful.'')],
              Inr (content, lit ''chromium''))
         | (log1, Inl e) \<Rightarrow>
             (let warned = log1 @
                    [Warning ([9888, 65039] @ lit '' Chromium scraping failed ('' @ str_exn e
                       @ lit ''), falling back to aiohttp.'')]
              in case scrape_with_aiohttp html_parser self env url tags_to_extract of
                   (log2, Inr content) \<Rightarrow>
                     (warned @ log2 @ [Info ([9989] @ lit '' aiohttp fallback successful.'')],
                      Inr (content, lit ''aiohttp''))
                 | (log2, Inl e2) \<Rightarrow> (warned @ log2, Inl e2)))
      else if method = Some (lit ''chromium'') then
        (case scrape_with_chromium env url tags_to_extract of
           (log1, Inr content) \<Rightarrow> (log1, Inr (content, lit ''chromium''))
         | (log1, Inl e) \<Rightarrow> (log1, Inl e))
      else if method = Some (lit ''aiohttp'') then
        (case scrape_with_aiohttp html_parser self env url tags_to_extract of
           (log2, Inr content) \<Rightarrow> (log2, Inr (content, lit ''aiohttp''))
         | (log2, Inl e) \<Rightarrow> (log2, Inl e))
      else ([], Inl (ValueError (lit ''Unknown method: '' @ format_method method))))"

text \<open>
  Lines 96 and 97: \<^verbatim>\<open>tags_to_extract\<close> defaults to \<^verbatim>\<open>None\<close>, which stands
  for the default tags.
\<close>

definition tags_or_default :: "pystr list option \<Rightarrow> pystr list" where
  "tags_or_default tags_to_extract =
     (case tags_to_extract of None \<Rightarrow> get_default_tags | Some ts \<Rightarrow> ts)"

text \<open>Lines 127 and 128: the truncation of a content longer than the maximum.\<close>

definition truncate_content :: "tool \<Rightarrow> pystr \<Rightarrow> pystr" where
  "truncate_content self content =
     (if int (length content) > max_content_length self
      then slice_to content (max_content_length self) @ truncation_marker
      else content)"

text \<open>
  \<^verbatim>\<open>_process_scraping\<close>: the default tags, the choice of the path, the empty
  content, the truncation, the formatted result, and the outer \<^verbatim>\<open>except\<close> clause
  that turns an exception into the error string.
\<close>

definition process_scraping ::
  "(pystr \<Rightarrow> node list) \<Rightarrow> tool \<Rightarrow> env \<Rightarrow> pystr \<Rightarrow> pystr list option \<Rightarrow> pystr option
     \<Rightarrow> event list \<times> pystr" where
  "process_scraping html_parser self env url tags_to_extract method =
     (let tags = tags_or_default tags_to_extract
      in case choose_path html_parser self env url tags method of
           (log, Inl e) \<Rightarrow> (log, error_message url e)
         | (log, Inr (content, used_method)) \<Rightarrow>
             if content = [] then (log, no_content_message url used_method)
             else
               (let content = truncate_content self content
                in (log, success_message url used_method (duration_2f env) content)))"

text \<open>
  \<^verbatim>\<open>_arun\<close> awaits \<^verbatim>\<open>_process_scraping\<close>. \<^verbatim>\<open>_run\<close> hands it to
  \<^verbatim>\<open>asyncio.run\<close>, which refuses to start under an event loop that is already
  running in the calling thread: it raises a \<^verbatim>\<open>RuntimeError\<close> before any part of
  \<^verbatim>\<open>_process_scraping\<close> runs. Whether such a loop is running is the first argument
  of \<open>run\<close>, and its result is the exception or what \<^verbatim>\<open>_process_scraping\<close>
  returns.
\<close>

definition arun ::
  "(pystr \<Rightarrow> node list) \<Rightarrow> tool \<Rightarrow> env \<Rightarrow> pystr \<Rightarrow> pystr list option \<Rightarrow> pystr option
     \<Rightarrow> event list \<times> pystr" where
  "arun html_parser self env url tags_to_extract method =
     process_scraping html_parser self env url tags_to_extract method"

definition run ::
  "bool \<Rightarrow> (pystr \<Rightarrow> node list) \<Rightarrow> tool \<Rightarrow> env \<Rightarrow> pystr \<Rightarrow> pystr list option
     \<Rightarrow> pystr option \<Rightarrow> exn + event list \<times> pystr" where
  "run loop_running html_parser self env url tags_to_extract method =
     (if loop_running
      then Inl (RuntimeError (lit ''asyncio.run() cannot be called from a running event loop''))
      else Inr (process_scraping html_parser self env url tags_to_extract method))"

subsection \<open>What the log shows\<close>

text \<open>The events that only the HTTP path leaves: its request.\<close>

fun http_call :: "event \<Rightarrow> bool" where
  "http_call (HttpGet tmo agent url) = True"
| "http_call (Info m) = False"
| "http_call (Warning m) = False"
| "http_call (ChromiumLoad urls) = False"
| "http_call (TransformDocuments docs tags) = False"

text \<open>The names of the tags of a tree, at any depth.\<close>

fun tag_names :: "node \<Rightarrow> pystr list" where
  "tag_names (Tag n cs) = n # concat (map tag_names cs)"
| "tag_names (NavigableString s) = []"
| "tag_names (Comment s) = []"

text \<open>
  Following the specification's words, to compare with what the code does: the visible
  text of a tree is the sequence of its text nodes, in document order, that lie in no
  \<^verbatim>\<open>script\<close>, \<^verbatim>\<open>style\<close>, \<^verbatim>\<open>nav\<close>, \<^verbatim>\<open>footer\<close> or \<^verbatim>\<open>header\<close>
  element.
\<close>

fun spec_visible_strings :: "node \<Rightarrow> pystr list" where
  "spec_visible_strings (Tag n cs) =
     (if n \<in> {lit ''script'', lit ''style'', lit ''nav'', lit ''footer'', lit ''header''}
      then [] else concat (map spec_visible_strings cs))"
| "spec_visible_strings (NavigableString s) = [s]"
| "spec_visible_strings (Comment s) = []"

subsection \<open>Concrete worlds for the scenarios\<close>

text \<open>
  A world is fixed by what the browser gives and what the HTTP client gives, whatever
  the URL. Its transformer keeps the documents when at least one tag is allowed and
  nothing otherwise; its clock shows a hundredth of a second.
\<close>

definition world :: "(exn + pystr list) \<Rightarrow> (exn + response) \<Rightarrow> env" where
  "world browser http =
     \<lparr>loader_load = (\<lambda>urls. browser),
      transform_documents = (\<lambda>docs tags. if tags = [] then Inr [] else Inr docs),
      session_get = (\<lambda>tmo agent url. http),
      duration_2f = lit ''0.01''\<rparr>"

definition browser_down :: "exn + pystr list" where
  "browser_down = Inl (Raised (lit ''browser not installed''))"

definition serving :: "nat \<Rightarrow> pystr \<Rightarrow> exn + response" where
  "serving st body =
     Inr \<lparr>status = st, status_error = str_nat st @ lit '', message=...'',
          text_body = Inr body\<rparr>"

definition example_url :: pystr where
  "example_url = lit ''http://example.org/''"

text \<open>
  A small parser of well-nested markup without attributes, one function the parameter
  \<open>html_parser\<close> can be: \<open>lex\<close> cuts the text at the angle brackets,
  \<open>build\<close> nests the tags.
\<close>

datatype token = Open pystr | Close pystr | Chars pystr

fun mk_tag :: "pystr \<Rightarrow> token" where
  "mk_tag [] = Open []"
| "mk_tag (c # cs) = (if c = 47 then Close cs else Open (c # cs))"

fun lex :: "bool \<Rightarrow> pystr \<Rightarrow> pystr \<Rightarrow> token list" where
  "lex in_tag buf [] = (if in_tag \<or> buf = [] then [] else [Chars buf])"
| "lex in_tag buf (c # cs) =
     (if in_tag then
        (if c = 62 then mk_tag buf # lex False [] cs else lex True (buf @ [c]) cs)
      else
        (if c = 60 then (if buf = [] then [] else [Chars buf]) @ lex True [] cs
         else lex False (buf @ [c]) cs))"

fun build :: "(pystr \<times> node list) list \<Rightarrow> node list \<Rightarrow> token list \<Rightarrow> node list" where
  "build [] cur [] = cur"
| "build ((n, before) # stack) cur [] = build stack (before @ [Tag n cur]) []"
| "build stack cur (Chars s # ts) = build stack (cur @ [NavigableString s]) ts"
| "build stack cur (Open n # ts) = build ((n, cur) # stack) [] ts"
| "build [] cur (Close n # ts) = build [] cur ts"
| "build ((n, before) # stack) cur (Close m # ts) = build stack (before @ [Tag n cur]) ts"

definition parse_markup :: "pystr \<Rightarrow> node list" where
  "parse_markup s = build [] [] (lex False [] s)"

text \<open>The document of the scenario and the tree the library's parser builds from it.\<close>

definition hello_document :: pystr where
  "hello_document = lit ''<html><body><script>x</script><p>Hello</p></body></html>''"

definition hello_tree :: "node list" where
  "hello_tree =
     [Tag (lit ''html'')
        [Tag (lit ''body'')
           [Tag (lit ''script'') [NavigableString (lit ''x'')],
            Tag (lit ''p'') [NavigableString (lit ''Hello'')]]]]"

text \<open>
  A page with every kind of element the HTTP path removes, with two paragraphs and with
  blanks around a text, and the tree the library's parser builds from it.
\<close>

definition rich_document :: pystr where
  "rich_document =
     lit ''<html><head><style>s</style></head><body><header>h</header><nav>n</nav><p> Hello </p><p>World</p><footer>f</footer><script>x</script></body></html>''"

definition rich_tree :: "node list" where
  "rich_tree =
     [Tag (lit ''html'')
        [Tag (lit ''head'') [Tag (lit ''style'') [NavigableString (lit ''s'')]],
         Tag (lit ''body'')
           [Tag (lit ''header'') [NavigableString (lit ''h'')],
            Tag (lit ''nav'') [NavigableString (lit ''n'')],
            Tag (lit ''p'') [NavigableString (lit '' Hello '')],
            Tag (lit ''p'') [NavigableString (lit ''World'')],
            Tag (lit ''footer'') [NavigableString (lit ''f'')],
            Tag (lit ''script'') [NavigableString (lit ''x'')]]]]"

section \<open>Properties\<close>

subsection \<open>Literals, logs and the shape of the orchestration\<close>

lemma lit_eq_iff [simp]: "lit a = lit b \<longleftrightarrow> a = b"
  by (simp add: lit_def inj_map_eq_map [OF inj_of_char])

lemma parse_hello: "parse_markup hello_document = hello_tree"
  by (simp add: parse_markup_def hello_document_def hello_tree_def lit_def)

lemma chromium_log_no_http:
  "list_all (\<lambda>ev. \<not> http_call ev) (fst (scrape_with_chromium env url tags))"
  by (simp add: scrape_with_chromium_def Let_def split: sum.splits list.splits)

lemma aiohttp_log:
  "fst (scrape_with_aiohttp hp self env url tags) =
     [Info ([128260] @ lit '' Attempting aiohttp scrape for: '' @ url),
      HttpGet (timeout self) (user_agent self) url]"
  by (simp add: scrape_with_aiohttp_def Let_def split: sum.splits)

lemma process_scraping_raises:
  "choose_path hp self env url (tags_or_default tags) m = (log, Inl e) \<Longrightarrow>
     process_scraping hp self env url tags m = (log, error_message url e)"
  by (simp add: process_scraping_def)

lemma process_scraping_returns:
  "choose_path hp self env url (tags_or_default tags) m = (log, Inr (content, used)) \<Longrightarrow>
     process_scraping hp self env url tags m =
       (log, if content = [] then no_content_message url used
             else success_message url used (duration_2f env) (truncate_content self content))"
  by (simp add: process_scraping_def)

lemma choose_path_unknown:
  "m \<noteq> Some (lit ''auto'') \<Longrightarrow> m \<noteq> Some (lit ''chromium'') \<Longrightarrow> m \<noteq> Some (lit ''aiohttp'') \<Longrightarrow>
     choose_path hp self env url tags m =
       ([], Inl (ValueError (lit ''Unknown method: '' @ format_method m)))"
  by (simp add: choose_path_def)

lemma choose_path_chromium:
  "choose_path hp self env url tags (Some (lit ''chromium'')) =
     (fst (scrape_with_chromium env url tags),
      case snd (scrape_with_chromium env url tags) of
        Inl e \<Rightarrow> Inl e | Inr content \<Rightarrow> Inr (content, lit ''chromium''))"
  by (simp add: choose_path_def split_beta split: sum.splits)

lemma choose_path_aiohttp:
  "choose_path hp self env url tags (Some (lit ''aiohttp'')) =
     (fst (scrape_with_aiohttp hp self env url tags),
      case snd (scrape_with_aiohttp hp self env url tags) of
        Inl e \<Rightarrow> Inl e | Inr content \<Rightarrow> Inr (content, lit ''aiohttp''))"
  by (simp add: choose_path_def split_beta split: sum.splits)

lemma choose_path_auto_primary:
  "snd (scrape_with_chromium env url tags) = Inr content \<Longrightarrow>
   choose_path hp self env url tags (Some (lit ''auto'')) =
     (fst (scrape_with_chromium env url tags)
        @ [Info ([9989] @ lit '' Chromium scraping successful.'')],
      Inr (content, lit ''chromium''))"
  by (cases "scrape_with_chromium env url tags") (simp add: choose_path_def)

lemma choose_path_auto_fallback:
  "snd (scrape_with_chromium env url tags) = Inl e \<Longrightarrow>
   choose_path hp self env url tags (Some (lit ''auto'')) =
     (fst (scrape_with_chromium env url tags)
        @ [Warning ([9888, 65039] @ lit '' Chromium scraping failed ('' @ str_exn e
             @ lit ''), falling back to aiohttp.'')]
        @ fst (scrape_with_aiohttp hp self env url tags)
        @ (case snd (scrape_with_aiohttp hp self env url tags) of
             Inl e2 \<Rightarrow> []
           | Inr content \<Rightarrow> [Info ([9989] @ lit '' aiohttp fallback successful.'')]),
      case snd (scrape_with_aiohttp hp self env url tags) of
        Inl e2 \<Rightarrow> Inl e2 | Inr content \<Rightarrow> Inr (content, lit ''aiohttp''))"
  by (cases "scrape_with_chromium env url tags"; cases "scrape_with_aiohttp hp self env url tags")
     (simp add: choose_path_def Let_def split: sum.splits)

subsection \<open>The entry points and the two paths\<close>

lemma run_arun:
  "arun hp self env url tags m = process_scraping hp self env url tags m"
  "run False hp self env url tags m = Inr (process_scraping hp self env url tags m)"
  "run True hp self env url tags m
     = Inl (RuntimeError (lit ''asyncio.run() cannot be called from a running event loop''))"
  by (simp_all add: run_def arun_def)

lemma aiohttp_result:
  "snd (scrape_with_aiohttp hp self env url tags) =
     (case session_get env (timeout self) (user_agent self) url of
        Inl e \<Rightarrow> Inl e
      | Inr r \<Rightarrow>
          if 400 \<le> status r then Inl (ClientResponseError (status r) (status_error r))
          else (case text_body r of
                  Inl e \<Rightarrow> Inl e
                | Inr body \<Rightarrow> Inr (get_text nl (decompose_all non_content_tags (hp body)))))"
  by (simp add: scrape_with_aiohttp_def Let_def split: sum.splits)

lemma chromium_result:
  "snd (scrape_with_chromium env url tags) =
     (case loader_load env [url] of
        Inl e \<Rightarrow> Inl e
      | Inr [] \<Rightarrow> Inl (Exception (lit ''Chromium loader failed to get any documents.''))
      | Inr (d # ds) \<Rightarrow>
          (case transform_documents env (d # ds) tags of
             Inl e \<Rightarrow> Inl e
           | Inr [] \<Rightarrow> Inl (Exception (lit ''BeautifulSoupTransformer failed to extract content.''))
           | Inr (doc # docs) \<Rightarrow> Inr doc))"
  by (simp add: scrape_with_chromium_def Let_def split: sum.splits list.splits)

subsection \<open>The concrete worlds\<close>

lemma world_simps [simp]:
  "loader_load (world b h) urls = b"
  "transform_documents (world b h) docs tags = (if tags = [] then Inr [] else Inr docs)"
  "session_get (world b h) tmo agent url = h"
  "duration_2f (world b h) = lit ''0.01''"
  by (simp_all add: world_def)

lemma default_tags_nonempty [simp]: "tags_or_default None \<noteq> []"
  by (simp add: tags_or_default_def get_default_tags_def)

lemma world_browser_down [simp]:
  "snd (scrape_with_chromium (world browser_down h) url tags)
     = Inl (Raised (lit ''browser not installed''))"
  by (simp add: chromium_result browser_down_def)

lemma world_serving [simp]:
  "snd (scrape_with_aiohttp hp self (world b (serving st body)) url tags) =
     (if 400 \<le> st then Inl (ClientResponseError st (str_nat st @ lit '', message=...''))
      else Inr (get_text nl (decompose_all non_content_tags (hp body))))"
  by (simp add: aiohttp_result serving_def)

lemma extract_ok:
  "get_text nl (decompose_all non_content_tags (parse_markup (lit ''<div>ok</div>''))) = lit ''ok''"
  by (simp add: parse_markup_def lit_def get_text_def decompose_all_def non_content_tags_def
        strip_def isspace_def)

lemma extract_hello:
  "get_text nl (decompose_all non_content_tags hello_tree) = lit ''Hello''"
  by (simp add: hello_tree_def lit_def get_text_def decompose_all_def non_content_tags_def
        strip_def isspace_def)

lemma default_tool_simps [simp]:
  "max_content_length default_tool = 20000"
  "timeout default_tool = 20"
  "max_content_length (WebScrapingTool n t) = n"
  "timeout (WebScrapingTool n t) = t"
  "user_agent (WebScrapingTool n t) = default_user_agent"
  by (simp_all add: default_tool_def WebScrapingTool_def)

subsection \<open>The result of a call\<close>

lemma choose_path_cases:
  assumes "snd (choose_path hp self env url t m) = Inr (content, used)"
  shows "(used = lit ''chromium'' \<and> snd (scrape_with_chromium env url t) = Inr content
            \<and> (m = Some (lit ''auto'') \<or> m = Some (lit ''chromium'')))
       \<or> (used = lit ''aiohttp'' \<and> snd (scrape_with_aiohttp hp self env url t) = Inr content
            \<and> (m = Some (lit ''aiohttp'')
                \<or> (m = Some (lit ''auto'')
                    \<and> (\<exists>e. snd (scrape_with_chromium env url t) = Inl e))))"
proof -
  consider (auto) "m = Some (lit ''auto'')" | (chromium) "m = Some (lit ''chromium'')"
    | (aiohttp) "m = Some (lit ''aiohttp'')"
    | (unknown) "m \<noteq> Some (lit ''auto'')" "m \<noteq> Some (lit ''chromium'')"
        "m \<noteq> Some (lit ''aiohttp'')"
    by blast
  then show ?thesis
  proof cases
    case auto
    show ?thesis
    proof (cases "snd (scrape_with_chromium env url t)")
      case (Inl e)
      with assms auto show ?thesis
        by (simp add: choose_path_auto_fallback [OF Inl] split: sum.splits)
    next
      case (Inr c)
      with assms auto show ?thesis
        by (simp add: choose_path_auto_primary [OF Inr])
    qed
  next
    case chromium
    with assms show ?thesis
      by (simp add: choose_path_chromium split: sum.splits)
  next
    case aiohttp
    with assms show ?thesis
      by (simp add: choose_path_aiohttp split: sum.splits)
  next
    case unknown
    with assms show ?thesis
      by (simp add: choose_path_unknown)
  qed
qed

lemma process_scraping_snd:
  "snd (process_scraping hp self env url tags m) =
     (case snd (choose_path hp self env url (tags_or_default tags) m) of
        Inl e \<Rightarrow> error_message url e
      | Inr (content, used) \<Rightarrow>
          if content = [] then no_content_message url used
          else success_message url used (duration_2f env) (truncate_content self content))"
  by (cases "choose_path hp self env url (tags_or_default tags) m")
     (simp add: process_scraping_def split: sum.splits prod.splits)

subsection \<open>The three messages are told apart by their wording\<close>

lemma no_content_is_not_error: "no_content_message url used \<noteq> error_message url' e"
  by (simp add: no_content_message_def error_message_def lit_def)

lemma no_content_is_not_success: "no_content_message url used \<noteq> success_message url' used' d c"
  by (simp add: no_content_message_def success_message_def lit_def nl_def)

lemma error_is_not_success: "error_message url e \<noteq> success_message url' used' d c"
  by (simp add: error_message_def success_message_def lit_def nl_def)

subsection \<open>Numbers, slices and the truncation\<close>


lemma slice_to_nonneg: "0 \<le> n \<Longrightarrow> slice_to xs n = take (nat n) xs"
  by (simp add: slice_to_def)

lemma length_truncation_marker: "length truncation_marker = 25"
  by (simp add: truncation_marker_def nl_def lit_def)

lemma truncate_content_nonneg:
  assumes "0 \<le> max_content_length self"
  shows "truncate_content self content =
           take (nat (max_content_length self)) content
           @ (if int (length content) > max_content_length self then truncation_marker else [])"
  using assms by (simp add: truncate_content_def slice_to_nonneg)

lemma extract_ab:
  "get_text nl (decompose_all non_content_tags (parse_markup (lit ''ab''))) = lit ''ab''"
  by (simp add: parse_markup_def lit_def get_text_def decompose_all_def non_content_tags_def
        strip_def isspace_def)

lemma run_negative_maximum:
  "snd (arun parse_markup (WebScrapingTool (- 1) 20) (world browser_down (serving 200 (lit ''ab'')))
          example_url None (Some (lit ''aiohttp'')))
     = success_message example_url (lit ''aiohttp'') (lit ''0.01'') (lit ''a'' @ truncation_marker)"
proof -
  have "truncate_content (WebScrapingTool (- 1) 20) (lit ''ab'') = lit ''a'' @ truncation_marker"
    by (simp add: truncate_content_def slice_to_def lit_def)
  moreover have "lit ''ab'' \<noteq> []"
    by (simp add: lit_def)
  ultimately show ?thesis
    by (simp add: run_arun process_scraping_snd choose_path_aiohttp extract_ab)
qed

lemma run_long_page:
  "snd (arun parse_markup default_tool (world (Inr [replicate 20001 120]) (serving 200 []))
          example_url None (Some (lit ''chromium'')))
     = success_message example_url (lit ''chromium'') (lit ''0.01'')
         (replicate 20000 120 @ truncation_marker)"
proof -
  have "truncate_content default_tool (replicate 20001 120)
          = replicate 20000 120 @ truncation_marker"
    by (simp add: truncate_content_def slice_to_def)
  moreover have "snd (scrape_with_chromium (world (Inr [replicate 20001 120]) (serving 200 []))
                        example_url (tags_or_default None)) = Inr (replicate 20001 120)"
    by (simp add: chromium_result)
  ultimately show ?thesis
    by (simp add: run_arun process_scraping_snd choose_path_chromium)
qed

subsection \<open>The removal of tags\<close>

lemma decompose_leaves_none:
  "\<not> named names t \<Longrightarrow> set (tag_names (decompose names t)) \<inter> set names = {}"
proof (induction t)
  case (Tag n cs)
  then have "set (tag_names (decompose names c)) \<inter> set names = {}"
    if "c \<in> set cs" "\<not> named names c" for c
    using that by blast
  with Tag.prems show ?case
    by auto
qed simp_all

lemma decompose_all_leaves_none:
  "set (concat (map tag_names (decompose_all names soup))) \<inter> set names = {}"
  using decompose_leaves_none [of names] by (auto simp add: decompose_all_def)

lemma aiohttp_served:
  assumes "session_get env (timeout self) (user_agent self) url = Inr r"
    and "status r < 400"
    and "text_body r = Inr body"
  shows "snd (scrape_with_aiohttp hp self env url tags)
           = Inr (get_text nl (decompose_all non_content_tags (hp body)))"
  using assms by (simp add: aiohttp_result)

lemma parse_rich: "parse_markup rich_document = rich_tree"
  by (simp add: parse_markup_def rich_document_def rich_tree_def lit_def)

lemma extract_rich:
  "get_text nl (decompose_all non_content_tags rich_tree) = lit ''Hello'' @ [10] @ lit ''World''"
  by (simp add: rich_tree_def lit_def get_text_def decompose_all_def non_content_tags_def
        strip_def isspace_def nl_def)

lemma named_invisible: "named non_content_tags t \<Longrightarrow> spec_visible_strings t = []"
  by (cases t) (simp_all add: non_content_tags_def)

lemma decompose_visible:
  "\<not> named non_content_tags t \<Longrightarrow>
     all_strings (decompose non_content_tags t) = spec_visible_strings t"
proof (induction t)
  case (Tag n cs)
  have "concat (map all_strings
                 (map (decompose non_content_tags)
                    (filter (\<lambda>c. \<not> named non_content_tags c) ds)))
          = concat (map spec_visible_strings ds)"
    if "set ds \<subseteq> set cs" for ds
    using that
  proof (induction ds)
    case Nil
    show ?case by simp
  next
    case (Cons d ds)
    then show ?case
      using Tag.IH [of d] named_invisible [of d] by (cases "named non_content_tags d") simp_all
  qed
  from this [of cs] Tag.prems show ?case
    by (simp add: non_content_tags_def)
qed simp_all

lemma decompose_all_visible:
  "concat (map all_strings (decompose_all non_content_tags soup))
     = concat (map spec_visible_strings soup)"
proof (induction soup)
  case Nil
  show ?case by (simp add: decompose_all_def)
next
  case (Cons t soup)
  then show ?case
    using decompose_visible [of t] named_invisible [of t]
    by (cases "named non_content_tags t") (simp_all add: decompose_all_def)
qed

lemma get_text_visible:
  "get_text nl (decompose_all non_content_tags soup)
     = join [10] (filter (\<lambda>s. s \<noteq> []) (map strip (concat (map spec_visible_strings soup))))"
  by (simp add: get_text_def decompose_all_visible nl_def)

subsection \<open>Stripping and joining\<close>

lemma dropWhile_blank_prefix:
  assumes "list_all isspace a" and "s \<noteq> []" and "\<not> isspace (hd s)"
  shows "dropWhile isspace (a @ s @ b) = s @ b"
proof -
  from assms(1) have "dropWhile isspace (a @ s @ b) = dropWhile isspace (s @ b)"
    by (simp add: dropWhile_append2 list_all_iff)
  also from assms(2,3) have "\<dots> = s @ b"
    by (cases s) simp_all
  finally show ?thesis .
qed

lemma strip_blanks:
  assumes "list_all isspace a" and "list_all isspace b"
    and "s = [] \<or> (\<not> isspace (hd s) \<and> \<not> isspace (last s))"
  shows "strip (a @ s @ b) = s"
proof (cases "s = []")
  case True
  with assms(1,2) have "\<forall>x \<in> set (a @ s @ b). isspace x"
    by (auto simp add: list_all_iff)
  then have d: "dropWhile isspace (a @ s @ b) = []"
    by (simp only: dropWhile_eq_Nil_conv)
  have "strip (a @ s @ b) = []"
    unfolding strip_def d by simp
  with True show ?thesis
    by (simp only:)
next
  case False
  with assms(3) have h: "\<not> isspace (hd s)" and l: "\<not> isspace (last s)"
    by simp_all
  from assms(1) False h have "dropWhile isspace (a @ s @ b) = s @ b"
    by (rule dropWhile_blank_prefix)
  moreover from assms(2) False l
  have "dropWhile isspace (rev b @ rev s @ []) = rev s @ []"
    by (intro dropWhile_blank_prefix) (simp_all add: hd_rev)
  ultimately show ?thesis
    by (simp add: strip_def)
qed

lemma join_concat: "join sep (x # xs) = x @ concat (map (\<lambda>y. sep @ y) xs)"
  by (induction xs arbitrary: x) simp_all

subsection \<open>The wording of the three messages\<close>

lemma lit_append: "lit (a @ b) = lit a @ lit b"
  by (simp add: lit_def)

lemma success_message_wording:
  "success_message url (lit used) duration content =
     [10] @ lit ''**Website Scraped:** '' @ url @ [10]
       @ lit (''**Method Used:** '' @ used) @ [10]
       @ lit ''**Duration:** '' @ duration @ lit '' seconds'' @ [10]
       @ lit ''**Content Length:** '' @ str_nat (length content) @ lit '' characters'' @ [10]
       @ lit ''**Content Extracted:**'' @ [10]
       @ content @ [10]"
  by (simp add: success_message_def nl_def lit_def)

lemma no_content_message_wording:
  "no_content_message url (lit used) =
     [10060] @ lit '' No content extracted from '' @ url @ lit ('' using method '' @ used @ ''.'')"
  by (simp add: no_content_message_def lit_def)

lemma error_message_wording:
  "error_message url e = [10060] @ lit '' Web scraping error for '' @ url @ lit '': '' @ str_exn e"
  by (simp add: error_message_def)

lemma str_nat_digit: "n < 10 \<Longrightarrow> str_nat n = [48 + n]"
  by (simp add: str_nat.simps [of n])

subsection \<open>The claims\<close>

text \<open>
  Claim C1. With the method \<^verbatim>\<open>auto\<close>, when the browser path fails with an
  exception, whatever it is, the HTTP path runs next: the log of the call is the log of
  the browser path, the warning, then the log of the HTTP path, and it holds a request
  of the HTTP path. When the HTTP path then returns a text that is not empty, the result
  is the formatted success, written out here character by character: its second line is
  \<^verbatim>\<open>**Method Used:** aiohttp\<close>. \<^verbatim>\<open>_arun\<close> returns this result, and so does
  \<^verbatim>\<open>_run\<close> outside a running event loop.
\<close>

theorem auto_falls_back_to_http:
  assumes "snd (scrape_with_chromium env url (tags_or_default tags)) = Inl e"
  shows "list_ex http_call (fst (process_scraping hp self env url tags (Some (lit ''auto''))))
       \<and> fst (process_scraping hp self env url tags (Some (lit ''auto''))) =
           fst (scrape_with_chromium env url (tags_or_default tags))
           @ [Warning ([9888, 65039] @ lit '' Chromium scraping failed ('' @ str_exn e
                @ lit ''), falling back to aiohttp.'')]
           @ fst (scrape_with_aiohttp hp self env url (tags_or_default tags))
           @ (case snd (scrape_with_aiohttp hp self env url (tags_or_default tags)) of
                Inl e2 \<Rightarrow> []
              | Inr content \<Rightarrow> [Info ([9989] @ lit '' aiohttp fallback successful.'')])
       \<and> (\<forall>content.
            snd (scrape_with_aiohttp hp self env url (tags_or_default tags)) = Inr content
            \<and> content \<noteq> [] \<longrightarrow>
            snd (process_scraping hp self env url tags (Some (lit ''auto''))) =
              success_message url (lit ''aiohttp'') (duration_2f env)
                (truncate_content self content)
            \<and> snd (process_scraping hp self env url tags (Some (lit ''auto''))) =
                [10] @ lit ''**Website Scraped:** '' @ url @ [10]
                  @ lit ''**Method Used:** aiohttp'' @ [10]
                  @ lit ''**Duration:** '' @ duration_2f env @ lit '' seconds'' @ [10]
                  @ lit ''**Content Length:** ''
                  @ str_nat (length (truncate_content self content))
                  @ lit '' characters'' @ [10]
                  @ lit ''**Content Extracted:**'' @ [10]
                  @ truncate_content self content @ [10])
       \<and> arun hp self env url tags (Some (lit ''auto''))
           = process_scraping hp self env url tags (Some (lit ''auto''))
       \<and> run False hp self env url tags (Some (lit ''auto''))
           = Inr (process_scraping hp self env url tags (Some (lit ''auto'')))"
proof -
  let ?t = "tags_or_default tags"
  let ?h = "scrape_with_aiohttp hp self env url ?t"
  note cp = choose_path_auto_fallback [OF assms, of hp self]
  have log: "fst (process_scraping hp self env url tags (Some (lit ''auto'')))
               = fst (choose_path hp self env url ?t (Some (lit ''auto'')))"
    by (cases "snd ?h") (simp_all add: process_scraping_def cp)
  have called: "list_ex http_call (fst (choose_path hp self env url ?t (Some (lit ''auto''))))"
    by (simp add: cp aiohttp_log)
  have res: "snd (process_scraping hp self env url tags (Some (lit ''auto''))) =
               success_message url (lit ''aiohttp'') (duration_2f env)
                 (truncate_content self content)"
    if "snd ?h = Inr content" "content \<noteq> []" for content
    using that by (simp add: process_scraping_def cp)
  have wording: "snd (process_scraping hp self env url tags (Some (lit ''auto''))) =
                [10] @ lit ''**Website Scraped:** '' @ url @ [10]
                  @ lit ''**Method Used:** aiohttp'' @ [10]
                  @ lit ''**Duration:** '' @ duration_2f env @ lit '' seconds'' @ [10]
                  @ lit ''**Content Length:** ''
                  @ str_nat (length (truncate_content self content))
                  @ lit '' characters'' @ [10]
                  @ lit ''**Content Extracted:**'' @ [10]
                  @ truncate_content self content @ [10]"
    if "snd ?h = Inr content" "content \<noteq> []" for content
    using res [OF that] success_message_wording [of url "''aiohttp''"] by simp
  from log called res wording show ?thesis
    by (simp add: cp run_arun)
qed

theorem auto_falls_back_to_http_witness:
  "snd (scrape_with_chromium (world browser_down (serving 200 (lit ''<div>ok</div>'')))
          example_url (tags_or_default None)) = Inl (Raised (lit ''browser not installed''))
   \<and> list_ex http_call
        (fst (process_scraping parse_markup default_tool
                (world browser_down (serving 200 (lit ''<div>ok</div>''))) example_url None
                (Some (lit ''auto''))))
   \<and> snd (process_scraping parse_markup default_tool
             (world browser_down (serving 200 (lit ''<div>ok</div>''))) example_url None
             (Some (lit ''auto'')))
       = [10] @ lit ''**Website Scraped:** http://example.org/'' @ [10]
           @ lit ''**Method Used:** aiohttp'' @ [10]
           @ lit ''**Duration:** 0.01 seconds'' @ [10]
           @ lit ''**Content Length:** 2 characters'' @ [10]
           @ lit ''**Content Extracted:**'' @ [10]
           @ lit ''ok'' @ [10]"
proof -
  let ?w = "world browser_down (serving 200 (lit ''<div>ok</div>''))"
  have h: "snd (scrape_with_chromium ?w example_url (tags_or_default None))
             = Inl (Raised (lit ''browser not installed''))"
    by simp
  have t: "truncate_content default_tool (lit ''ok'') = lit ''ok''"
    by (simp add: truncate_content_def lit_def)
  have ne: "lit ''ok'' \<noteq> []"
    by (simp add: lit_def)
  have s: "snd (scrape_with_aiohttp parse_markup default_tool ?w example_url
                 (tags_or_default None)) = Inr (lit ''ok'')"
    by (simp add: extract_ok)
  note fb = auto_falls_back_to_http [OF h, of parse_markup default_tool]
  from fb have a: "list_ex http_call
        (fst (process_scraping parse_markup default_tool ?w example_url None
                (Some (lit ''auto''))))"
    by (rule conjunct1)
  from fb s ne have "snd (process_scraping parse_markup default_tool ?w example_url None
             (Some (lit ''auto'')))
       = [10] @ lit ''**Website Scraped:** '' @ example_url @ [10]
           @ lit ''**Method Used:** aiohttp'' @ [10]
           @ lit ''**Duration:** '' @ duration_2f ?w @ lit '' seconds'' @ [10]
           @ lit ''**Content Length:** ''
           @ str_nat (length (truncate_content default_tool (lit ''ok'')))
           @ lit '' characters'' @ [10]
           @ lit ''**Content Extracted:**'' @ [10]
           @ truncate_content default_tool (lit ''ok'') @ [10]"
    by blast
  also have "\<dots> = [10] @ lit ''**Website Scraped:** http://example.org/'' @ [10]
           @ lit ''**Method Used:** aiohttp'' @ [10]
           @ lit ''**Duration:** 0.01 seconds'' @ [10]
           @ lit ''**Content Length:** 2 characters'' @ [10]
           @ lit ''**Content Extracted:**'' @ [10]
           @ lit ''ok'' @ [10]"
    unfolding t by (simp add: example_url_def str_nat_digit lit_def)
  finally have r: "snd (process_scraping parse_markup default_tool ?w example_url None
             (Some (lit ''auto'')))
       = [10] @ lit ''**Website Scraped:** http://example.org/'' @ [10]
           @ lit ''**Method Used:** aiohttp'' @ [10]
           @ lit ''**Duration:** 0.01 seconds'' @ [10]
           @ lit ''**Content Length:** 2 characters'' @ [10]
           @ lit ''**Content Extracted:**'' @ [10]
           @ lit ''ok'' @ [10]" .
  from h a r show ?thesis by blast
qed




text \<open>
  Claim C3. With the method \<^verbatim>\<open>chromium\<close>, when the browser path fails with an
  exception \<open>e\<close>, \<^verbatim>\<open>_arun\<close> returns the error string built from \<open>e\<close> (the
  cross mark, \<^verbatim>\<open> Web scraping error for \<close>, the URL, a colon, a space and the text of
  \<open>e\<close>), the log of the call is the log of the browser path alone, and no event of it
  is a request of the HTTP path. \<^verbatim>\<open>_run\<close>, outside a running event loop, returns
  the same string with the same log.
\<close>

theorem browser_only_never_falls_back:
  assumes "snd (scrape_with_chromium env url (tags_or_default tags)) = Inl e"
  shows "snd (arun hp self env url tags (Some (lit ''chromium''))) = error_message url e
       \<and> snd (arun hp self env url tags (Some (lit ''chromium'')))
           = [10060] @ lit '' Web scraping error for '' @ url @ lit '': '' @ str_exn e
       \<and> fst (arun hp self env url tags (Some (lit ''chromium'')))
           = fst (scrape_with_chromium env url (tags_or_default tags))
       \<and> list_all (\<lambda>ev. \<not> http_call ev) (fst (arun hp self env url tags (Some (lit ''chromium''))))
       \<and> run False hp self env url tags (Some (lit ''chromium''))
           = Inr (fst (scrape_with_chromium env url (tags_or_default tags)), error_message url e)"
proof -
  let ?t = "tags_or_default tags"
  have "choose_path hp self env url ?t (Some (lit ''chromium''))
          = (fst (scrape_with_chromium env url ?t), Inl e)"
    using assms by (simp add: choose_path_chromium)
  then have "process_scraping hp self env url tags (Some (lit ''chromium''))
          = (fst (scrape_with_chromium env url ?t), error_message url e)"
    by (rule process_scraping_raises)
  then show ?thesis
    using chromium_log_no_http [of env url ?t] by (simp add: run_arun error_message_wording)
qed

theorem browser_only_never_falls_back_witness:
  "snd (scrape_with_chromium (world browser_down (serving 200 hello_document)) example_url
          (tags_or_default None)) = Inl (Raised (lit ''browser not installed''))
   \<and> snd (arun parse_markup default_tool (world browser_down (serving 200 hello_document))
             example_url None (Some (lit ''chromium'')))
       = error_message example_url (Raised (lit ''browser not installed''))
   \<and> list_all (\<lambda>ev. \<not> http_call ev)
        (fst (arun parse_markup default_tool (world browser_down (serving 200 hello_document))
                example_url None (Some (lit ''chromium''))))"
proof -
  have h: "snd (scrape_with_chromium (world browser_down (serving 200 hello_document)) example_url
          (tags_or_default None)) = Inl (Raised (lit ''browser not installed''))"
    by (simp add: scrape_with_chromium_def world_def browser_down_def)
  show ?thesis
    using h browser_only_never_falls_back [OF h, of parse_markup default_tool] by blast
qed

text \<open>
  Claim C4, as amended. Under a maximum that is not negative, when the path that answers
  returns a text longer than the maximum, the content of the formatted result is the
  first \<open>maximum\<close> characters of the text followed by the truncation marker: its
  length is the maximum plus the 25 characters of the marker, and the marker is its end.
\<close>

theorem truncated_content_length:
  assumes "0 \<le> max_content_length self"
    and "snd (choose_path hp self env url (tags_or_default tags) m) = Inr (content, used)"
    and "int (length content) > max_content_length self"
  shows "snd (arun hp self env url tags m) =
           success_message url used (duration_2f env)
             (take (nat (max_content_length self)) content @ truncation_marker)
       \<and> int (length (take (nat (max_content_length self)) content @ truncation_marker))
           = max_content_length self + int (length truncation_marker)
       \<and> length truncation_marker = 25
       \<and> run False hp self env url tags m = Inr (arun hp self env url tags m)"
proof -
  from assms(1,3) have ne: "content \<noteq> []"
    by auto
  from assms(1,3) have t: "truncate_content self content
          = take (nat (max_content_length self)) content @ truncation_marker"
    by (simp add: truncate_content_nonneg)
  from assms(1,3) have l: "length (take (nat (max_content_length self)) content)
          = nat (max_content_length self)"
    by simp
  from assms(2) ne t have "snd (arun hp self env url tags m) =
           success_message url used (duration_2f env)
             (take (nat (max_content_length self)) content @ truncation_marker)"
    by (simp add: run_arun process_scraping_snd)
  with l assms(1) show ?thesis
    by (simp add: run_arun length_truncation_marker)
qed

theorem truncated_content_length_witness:
  "0 \<le> max_content_length default_tool
   \<and> snd (choose_path parse_markup default_tool
            (world (Inr [replicate 20001 120]) (serving 200 [])) example_url
            (tags_or_default None) (Some (lit ''chromium'')))
       = Inr (replicate 20001 120, lit ''chromium'')
   \<and> int (length (replicate 20001 (120::nat))) > max_content_length default_tool
   \<and> snd (arun parse_markup default_tool (world (Inr [replicate 20001 120]) (serving 200 []))
            example_url None (Some (lit ''chromium'')))
       = success_message example_url (lit ''chromium'') (lit ''0.01'')
           (replicate 20000 120 @ truncation_marker)
   \<and> length (replicate 20000 (120::nat) @ truncation_marker) = 20025"
proof -
  let ?w = "world (Inr [replicate 20001 120]) (serving 200 [])"
  have a: "0 \<le> max_content_length default_tool"
    by simp
  have b: "snd (choose_path parse_markup default_tool ?w example_url (tags_or_default None)
                  (Some (lit ''chromium''))) = Inr (replicate 20001 120, lit ''chromium'')"
    by (simp add: choose_path_chromium chromium_result)
  have c: "int (length (replicate 20001 (120::nat))) > max_content_length default_tool"
    by simp
  from truncated_content_length [OF a b c]
  have "snd (arun parse_markup default_tool ?w example_url None (Some (lit ''chromium''))) =
           success_message example_url (lit ''chromium'') (duration_2f ?w)
             (take (nat (max_content_length default_tool)) (replicate 20001 120)
                @ truncation_marker)"
    by (rule conjunct1)
  then have r: "snd (arun parse_markup default_tool ?w example_url None (Some (lit ''chromium'')))
          = success_message example_url (lit ''chromium'') (lit ''0.01'')
              (replicate 20000 120 @ truncation_marker)"
    by simp
  have l: "length (replicate 20000 (120::nat) @ truncation_marker) = 20025"
    by (simp add: length_truncation_marker)
  from a b c r l show ?thesis by blast
qed

theorem truncated_content_length_counterexample:
  "int (length (lit ''ab'')) > max_content_length (WebScrapingTool (- 1) 20)
   \<and> snd (arun parse_markup (WebScrapingTool (- 1) 20)
            (world browser_down (serving 200 (lit ''ab''))) example_url None
            (Some (lit ''aiohttp'')))
       = success_message example_url (lit ''aiohttp'') (lit ''0.01'')
           (lit ''a'' @ truncation_marker)
   \<and> int (length (lit ''a'' @ truncation_marker)) = 26
   \<and> max_content_length (WebScrapingTool (- 1) 20) + int (length truncation_marker) = 24"
proof -
  have a: "int (length (lit ''ab'')) > max_content_length (WebScrapingTool (- 1) 20)"
    by (simp add: lit_def)
  have c: "int (length (lit ''a'' @ truncation_marker)) = 26"
    by (simp add: length_truncation_marker lit_def)
  have d: "max_content_length (WebScrapingTool (- 1) 20) + int (length truncation_marker) = 24"
    by (simp add: length_truncation_marker)
  from a run_negative_maximum c d show ?thesis by blast
qed

text \<open>
  Claim C5, as amended. Under a maximum that is not negative, the content of a formatted
  result is the part of the text that is kept, of length at most the maximum, followed
  by the truncation marker exactly when the text was longer than the maximum. The
  content itself is then longer than the maximum, by the 25 characters of the marker.
\<close>

theorem kept_text_within_maximum:
  assumes "0 \<le> max_content_length self"
    and "snd (choose_path hp self env url (tags_or_default tags) m) = Inr (content, used)"
    and "content \<noteq> []"
  shows "snd (arun hp self env url tags m) =
           success_message url used (duration_2f env)
             (take (nat (max_content_length self)) content
              @ (if int (length content) > max_content_length self then truncation_marker
                 else []))
       \<and> int (length (take (nat (max_content_length self)) content)) \<le> max_content_length self
       \<and> int (length (take (nat (max_content_length self)) content
                       @ (if int (length content) > max_content_length self
                          then truncation_marker else [])))
           \<le> max_content_length self + 25
       \<and> run False hp self env url tags m = Inr (arun hp self env url tags m)"
proof -
  from assms(2,3) have "snd (arun hp self env url tags m) =
           success_message url used (duration_2f env) (truncate_content self content)"
    by (simp add: run_arun process_scraping_snd)
  with assms(1) show ?thesis
    by (simp add: run_arun truncate_content_nonneg length_truncation_marker)
qed

theorem kept_text_within_maximum_witness:
  "0 \<le> max_content_length default_tool
   \<and> snd (choose_path parse_markup default_tool
            (world browser_down (serving 200 (lit ''<div>ok</div>''))) example_url
            (tags_or_default None) (Some (lit ''aiohttp''))) = Inr (lit ''ok'', lit ''aiohttp'')
   \<and> lit ''ok'' \<noteq> []
   \<and> snd (arun parse_markup default_tool
            (world browser_down (serving 200 (lit ''<div>ok</div>''))) example_url None
            (Some (lit ''aiohttp'')))
       = success_message example_url (lit ''aiohttp'') (lit ''0.01'') (lit ''ok'')"
proof -
  let ?w = "world browser_down (serving 200 (lit ''<div>ok</div>''))"
  have a: "0 \<le> max_content_length default_tool"
    by simp
  have b: "snd (choose_path parse_markup default_tool ?w example_url (tags_or_default None)
                  (Some (lit ''aiohttp''))) = Inr (lit ''ok'', lit ''aiohttp'')"
    by (simp add: choose_path_aiohttp extract_ok)
  have c: "lit ''ok'' \<noteq> []"
    by (simp add: lit_def)
  from kept_text_within_maximum [OF a b c]
  have "snd (arun parse_markup default_tool ?w example_url None (Some (lit ''aiohttp''))) =
           success_message example_url (lit ''aiohttp'') (duration_2f ?w)
             (take (nat (max_content_length default_tool)) (lit ''ok'')
              @ (if int (length (lit ''ok'')) > max_content_length default_tool
                 then truncation_marker else []))"
    by (rule conjunct1)
  then have r: "snd (arun parse_markup default_tool ?w example_url None (Some (lit ''aiohttp'')))
          = success_message example_url (lit ''aiohttp'') (lit ''0.01'') (lit ''ok'')"
    by (simp add: lit_def)
  from a b c r show ?thesis by blast
qed

theorem kept_text_within_maximum_counterexample:
  "snd (arun parse_markup default_tool (world (Inr [replicate 20001 120]) (serving 200 []))
          example_url None (Some (lit ''chromium'')))
     = success_message example_url (lit ''chromium'') (lit ''0.01'')
         (replicate 20000 120 @ truncation_marker)
   \<and> int (length (replicate 20000 (120::nat) @ truncation_marker)) = 20025
   \<and> max_content_length default_tool = 20000
   \<and> snd (arun parse_markup (WebScrapingTool (- 1) 20)
            (world browser_down (serving 200 (lit ''ab''))) example_url None
            (Some (lit ''aiohttp'')))
       = success_message example_url (lit ''aiohttp'') (lit ''0.01'')
           (lit ''a'' @ truncation_marker)
   \<and> int (length (lit ''a'')) = 1
   \<and> max_content_length (WebScrapingTool (- 1) 20) = - 1"
proof -
  have a: "int (length (replicate 20000 (120::nat) @ truncation_marker)) = 20025"
    by (simp add: length_truncation_marker)
  have b: "max_content_length default_tool = 20000"
    by simp
  have c: "int (length (lit ''a'')) = 1"
    by (simp add: lit_def)
  have d: "max_content_length (WebScrapingTool (- 1) 20) = - 1"
    by simp
  from run_long_page a b run_negative_maximum c d show ?thesis by blast
qed

text \<open>
  Claim C6. When the choice of the path ends with a content and a method (the two
  variables \<^verbatim>\<open>content\<close> and \<^verbatim>\<open>used_method\<close> of the source), the method is the
  name of the path that returned this content: \<^verbatim>\<open>chromium\<close> only when the browser
  path returned it, \<^verbatim>\<open>aiohttp\<close> only when the HTTP path returned it, and under
  \<^verbatim>\<open>auto\<close> the latter exactly when the browser path had failed. The result names this
  method, in the formatted success when the content is not empty and in the message of
  an empty content otherwise.
\<close>

theorem used_method_is_the_path_that_answered:
  assumes "snd (choose_path hp self env url (tags_or_default tags) m) = Inr (content, used)"
  shows "((used = lit ''chromium''
            \<and> snd (scrape_with_chromium env url (tags_or_default tags)) = Inr content
            \<and> (m = Some (lit ''auto'') \<or> m = Some (lit ''chromium'')))
          \<or> (used = lit ''aiohttp''
            \<and> snd (scrape_with_aiohttp hp self env url (tags_or_default tags)) = Inr content
            \<and> (m = Some (lit ''aiohttp'')
                \<or> (m = Some (lit ''auto'')
                    \<and> (\<exists>e. snd (scrape_with_chromium env url (tags_or_default tags)) = Inl e)))))
       \<and> snd (process_scraping hp self env url tags m) =
           (if content = [] then no_content_message url used
            else success_message url used (duration_2f env) (truncate_content self content))"
  using choose_path_cases [OF assms] assms by (simp add: process_scraping_snd)

theorem used_method_is_the_path_that_answered_witness:
  "snd (choose_path parse_markup default_tool
          (world browser_down (serving 200 (lit ''<div>ok</div>''))) example_url
          (tags_or_default None) (Some (lit ''auto''))) = Inr (lit ''ok'', lit ''aiohttp'')
   \<and> snd (scrape_with_chromium (world browser_down (serving 200 (lit ''<div>ok</div>'')))
            example_url (tags_or_default None)) = Inl (Raised (lit ''browser not installed''))
   \<and> snd (process_scraping parse_markup default_tool
            (world browser_down (serving 200 (lit ''<div>ok</div>''))) example_url None
            (Some (lit ''auto'')))
       = success_message example_url (lit ''aiohttp'') (lit ''0.01'') (lit ''ok'')"
proof -
  let ?w = "world browser_down (serving 200 (lit ''<div>ok</div>''))"
  have b: "snd (scrape_with_chromium ?w example_url (tags_or_default None))
             = Inl (Raised (lit ''browser not installed''))"
    by simp
  have h: "snd (choose_path parse_markup default_tool ?w example_url (tags_or_default None)
                  (Some (lit ''auto''))) = Inr (lit ''ok'', lit ''aiohttp'')"
    by (simp add: choose_path_auto_fallback [OF b] extract_ok)
  have t: "truncate_content default_tool (lit ''ok'') = lit ''ok''"
    by (simp add: truncate_content_def lit_def)
  have ne: "lit ''ok'' \<noteq> []"
    by (simp add: lit_def)
  from used_method_is_the_path_that_answered [OF h]
  have "snd (process_scraping parse_markup default_tool ?w example_url None (Some (lit ''auto'')))
          = (if lit ''ok'' = [] then no_content_message example_url (lit ''aiohttp'')
             else success_message example_url (lit ''aiohttp'') (duration_2f ?w)
                    (truncate_content default_tool (lit ''ok'')))"
    by (rule conjunct2)
  with t ne have r: "snd (process_scraping parse_markup default_tool ?w example_url None
                            (Some (lit ''auto'')))
          = success_message example_url (lit ''aiohttp'') (lit ''0.01'') (lit ''ok'')"
    by simp
  from h b r show ?thesis by blast
qed

text \<open>
  Claim C7. When the path that answers returns an empty text without raising, the
  browser path under \<^verbatim>\<open>auto\<close> or \<^verbatim>\<open>chromium\<close>, the HTTP path under
  \<^verbatim>\<open>aiohttp\<close> or as the fallback of \<^verbatim>\<open>auto\<close>, \<^verbatim>\<open>_arun\<close> returns the message
  of an empty content, written out here character by character: the cross mark, then
  \<^verbatim>\<open> No content extracted from \<close>, the URL, \<^verbatim>\<open> using method \<close>, the name of
  that path (\<^verbatim>\<open>chromium\<close> or \<^verbatim>\<open>aiohttp\<close>) and a full stop. \<^verbatim>\<open>_run\<close> returns
  the same outside a running event loop. This message is a returned string, and its
  wording differs from every error string (the cross mark, \<^verbatim>\<open> Web scraping error for \<close>,
  a URL, a colon and the text of an exception) and from every formatted success,
  whatever the URLs, the method names, the exception and the content.
\<close>

theorem empty_text_is_no_content:
  "((m = Some (lit ''auto'') \<or> m = Some (lit ''chromium''))
      \<and> snd (scrape_with_chromium env url (tags_or_default tags)) = Inr [] \<longrightarrow>
      snd (arun hp self env url tags m) = no_content_message url (lit ''chromium'')
      \<and> snd (arun hp self env url tags m) =
          [10060] @ lit '' No content extracted from '' @ url
            @ lit '' using method chromium.'')
   \<and> ((m = Some (lit ''aiohttp'')
        \<or> (m = Some (lit ''auto'')
            \<and> snd (scrape_with_chromium env url (tags_or_default tags)) = Inl e))
      \<and> snd (scrape_with_aiohttp hp self env url (tags_or_default tags)) = Inr [] \<longrightarrow>
      snd (arun hp self env url tags m) = no_content_message url (lit ''aiohttp'')
      \<and> snd (arun hp self env url tags m) =
          [10060] @ lit '' No content extracted from '' @ url
            @ lit '' using method aiohttp.'')
   \<and> run False hp self env url tags m = Inr (arun hp self env url tags m)
   \<and> no_content_message url used \<noteq> error_message url' e'
   \<and> no_content_message url used \<noteq> success_message url' used' d c
   \<and> [10060] @ lit '' No content extracted from '' @ url @ lit '' using method '' @ used
        @ lit ''.''
       \<noteq> [10060] @ lit '' Web scraping error for '' @ url' @ lit '': '' @ str_exn e'
   \<and> [10060] @ lit '' No content extracted from '' @ url @ lit '' using method '' @ used
        @ lit ''.''
       \<noteq> [10] @ lit ''**Website Scraped:** '' @ url' @ [10]
           @ lit ''**Method Used:** '' @ used' @ [10]
           @ lit ''**Duration:** '' @ d @ lit '' seconds'' @ [10]
           @ lit ''**Content Length:** '' @ str_nat (length c) @ lit '' characters'' @ [10]
           @ lit ''**Content Extracted:**'' @ [10]
           @ c @ [10]"
proof -
  let ?t = "tags_or_default tags"
  have a: "snd (arun hp self env url tags m) = no_content_message url (lit ''chromium'')"
    if "m = Some (lit ''auto'') \<or> m = Some (lit ''chromium'')"
      and r: "snd (scrape_with_chromium env url ?t) = Inr []"
    using that
    by (auto simp add: run_arun process_scraping_snd choose_path_auto_primary [OF r]
          choose_path_chromium)
  have b: "snd (arun hp self env url tags m) = no_content_message url (lit ''aiohttp'')"
    if "m = Some (lit ''aiohttp'')
          \<or> (m = Some (lit ''auto'') \<and> snd (scrape_with_chromium env url ?t) = Inl e)"
      and r: "snd (scrape_with_aiohttp hp self env url ?t) = Inr []"
  proof -
    from that(1) show ?thesis
    proof
      assume "m = Some (lit ''aiohttp'')"
      with r show ?thesis
        by (simp add: run_arun process_scraping_snd choose_path_aiohttp)
    next
      assume f: "m = Some (lit ''auto'') \<and> snd (scrape_with_chromium env url ?t) = Inl e"
      then have "snd (scrape_with_chromium env url ?t) = Inl e" by simp
      from choose_path_auto_fallback [OF this, of hp self] f r show ?thesis
        by (simp add: run_arun process_scraping_snd)
    qed
  qed
  have wa: "no_content_message url (lit ''chromium'') =
              [10060] @ lit '' No content extracted from '' @ url
                @ lit '' using method chromium.''"
    using no_content_message_wording [of url "''chromium''"] by simp
  have wb: "no_content_message url (lit ''aiohttp'') =
              [10060] @ lit '' No content extracted from '' @ url
                @ lit '' using method aiohttp.''"
    using no_content_message_wording [of url "''aiohttp''"] by simp
  have d1: "[10060] @ lit '' No content extracted from '' @ url @ lit '' using method '' @ used
        @ lit ''.''
       \<noteq> [10060] @ lit '' Web scraping error for '' @ url' @ lit '': '' @ str_exn e'"
    by (simp add: lit_def)
  have d2: "[10060] @ lit '' No content extracted from '' @ url @ lit '' using method '' @ used
        @ lit ''.''
       \<noteq> [10] @ lit ''**Website Scraped:** '' @ url' @ [10]
           @ lit ''**Method Used:** '' @ used' @ [10]
           @ lit ''**Duration:** '' @ d @ lit '' seconds'' @ [10]
           @ lit ''**Content Length:** '' @ str_nat (length c) @ lit '' characters'' @ [10]
           @ lit ''**Content Extracted:**'' @ [10]
           @ c @ [10]"
    by simp
  have r: "run False hp self env url tags m = Inr (arun hp self env url tags m)"
    by (simp add: run_arun)
  have n1: "no_content_message url used \<noteq> error_message url' e'"
    by (rule no_content_is_not_error)
  have n2: "no_content_message url used \<noteq> success_message url' used' d c"
    by (rule no_content_is_not_success)
  from a b wa wb have ab:
    "((m = Some (lit ''auto'') \<or> m = Some (lit ''chromium''))
      \<and> snd (scrape_with_chromium env url (tags_or_default tags)) = Inr [] \<longrightarrow>
      snd (arun hp self env url tags m) = no_content_message url (lit ''chromium'')
      \<and> snd (arun hp self env url tags m) =
          [10060] @ lit '' No content extracted from '' @ url
            @ lit '' using method chromium.'')
   \<and> ((m = Some (lit ''aiohttp'')
        \<or> (m = Some (lit ''auto'')
            \<and> snd (scrape_with_chromium env url (tags_or_default tags)) = Inl e))
      \<and> snd (scrape_with_aiohttp hp self env url (tags_or_default tags)) = Inr [] \<longrightarrow>
      snd (arun hp self env url tags m) = no_content_message url (lit ''aiohttp'')
      \<and> snd (arun hp self env url tags m) =
          [10060] @ lit '' No content extracted from '' @ url
            @ lit '' using method aiohttp.'')"
    by metis
  from ab r n1 n2 d1 d2 show ?thesis
    by blast
qed

theorem empty_text_is_no_content_witness:
  "snd (scrape_with_chromium (world (Inr [[]]) (serving 200 [])) example_url
          (tags_or_default None)) = Inr []
   \<and> snd (arun parse_markup default_tool (world (Inr [[]]) (serving 200 [])) example_url None
            (Some (lit ''chromium'')))
       = [10060] @ lit '' No content extracted from http://example.org/ using method chromium.''
   \<and> snd (scrape_with_chromium (world browser_down (serving 200 (lit ''<script>x</script>'')))
            example_url (tags_or_default None)) = Inl (Raised (lit ''browser not installed''))
   \<and> snd (scrape_with_aiohttp parse_markup default_tool
            (world browser_down (serving 200 (lit ''<script>x</script>''))) example_url
            (tags_or_default None)) = Inr []
   \<and> snd (arun parse_markup default_tool
            (world browser_down (serving 200 (lit ''<script>x</script>''))) example_url None
            (Some (lit ''auto'')))
       = [10060] @ lit '' No content extracted from http://example.org/ using method aiohttp.''"
proof -
  let ?w1 = "world (Inr [[]]) (serving 200 [])"
  let ?w2 = "world browser_down (serving 200 (lit ''<script>x</script>''))"
  have c1: "snd (scrape_with_chromium ?w1 example_url (tags_or_default None)) = Inr []"
    by (simp add: chromium_result)
  have c2: "snd (scrape_with_chromium ?w2 example_url (tags_or_default None))
              = Inl (Raised (lit ''browser not installed''))"
    by simp
  have x: "get_text nl (decompose_all non_content_tags (parse_markup (lit ''<script>x</script>'')))
             = []"
    by (simp add: parse_markup_def lit_def get_text_def decompose_all_def non_content_tags_def)
  have h2: "snd (scrape_with_aiohttp parse_markup default_tool ?w2 example_url
                   (tags_or_default None)) = Inr []"
    by (simp add: x)
  from empty_text_is_no_content
         [where m = "Some (lit ''chromium'')" and env = ?w1 and url = example_url
            and tags = None and hp = parse_markup and self = default_tool] c1
  have "snd (arun parse_markup default_tool ?w1 example_url None (Some (lit ''chromium'')))
              = [10060] @ lit '' No content extracted from '' @ example_url
                  @ lit '' using method chromium.''"
    by blast
  then have r1: "snd (arun parse_markup default_tool ?w1 example_url None
                        (Some (lit ''chromium'')))
       = [10060] @ lit '' No content extracted from http://example.org/ using method chromium.''"
    by (simp add: example_url_def lit_def)
  from empty_text_is_no_content
         [where m = "Some (lit ''auto'')" and env = ?w2 and url = example_url
            and tags = None and e = "Raised (lit ''browser not installed'')"
            and hp = parse_markup and self = default_tool] c2 h2
  have "snd (arun parse_markup default_tool ?w2 example_url None (Some (lit ''auto'')))
              = [10060] @ lit '' No content extracted from '' @ example_url
                  @ lit '' using method aiohttp.''"
    by blast
  then have r2: "snd (arun parse_markup default_tool ?w2 example_url None (Some (lit ''auto'')))
       = [10060] @ lit '' No content extracted from http://example.org/ using method aiohttp.''"
    by (simp add: example_url_def lit_def)
  from c1 r1 c2 h2 r2 show ?thesis by blast
qed

text \<open>
  Claim C8. When the HTTP client serves a body with a status below 400, the HTTP path
  returns the visible text of the tree the parser of the library builds from the body:
  the text nodes that lie in no \<^verbatim>\<open>script\<close>, \<^verbatim>\<open>style\<close>, \<^verbatim>\<open>nav\<close>,
  \<^verbatim>\<open>footer\<close> or \<^verbatim>\<open>header\<close> element, in document order, each stripped of the
  whitespace at its two ends, the empty ones dropped, joined by a newline. No tag of
  these five names is left in the tree the text is taken from. Stripping removes the
  blanks around a text that neither starts nor ends with a blank and leaves the text
  itself as it is; tabs, newlines and spaces are blanks; joining puts one newline
  before every text but the first.

  When the body is \<^verbatim>\<open><html><body><script>x</script><p>Hello</p></body></html>\<close> and the
  parser builds the tree of its four tags, the HTTP path returns \<^verbatim>\<open>Hello\<close>, and a
  call with the method \<^verbatim>\<open>aiohttp\<close> reports it as its content. When the body is a
  page with a \<^verbatim>\<open>style\<close>, a \<^verbatim>\<open>header\<close>, a \<^verbatim>\<open>nav\<close>, a \<^verbatim>\<open>footer\<close> and a
  \<^verbatim>\<open>script\<close> element around the two paragraphs \<^verbatim>\<open> Hello \<close> and \<^verbatim>\<open>World\<close>, the
  HTTP path returns \<^verbatim>\<open>Hello\<close>, a newline and \<^verbatim>\<open>World\<close>.
\<close>

theorem hello_document_gives_hello:
  assumes "session_get env (timeout self) (user_agent self) url = Inr r"
    and "status r < 400"
    and "text_body r = Inr body"
  shows "(body = hello_document \<and> html_parser body = hello_tree \<longrightarrow>
            snd (scrape_with_aiohttp html_parser self env url tags) = Inr (lit ''Hello'')
            \<and> snd (choose_path html_parser self env url tags (Some (lit ''aiohttp'')))
                = Inr (lit ''Hello'', lit ''aiohttp''))
       \<and> (body = rich_document \<and> html_parser body = rich_tree \<longrightarrow>
            snd (scrape_with_aiohttp html_parser self env url tags)
              = Inr (lit ''Hello'' @ [10] @ lit ''World''))
       \<and> snd (scrape_with_aiohttp html_parser self env url tags)
           = Inr (get_text nl (decompose_all non_content_tags (html_parser body)))
       \<and> snd (scrape_with_aiohttp html_parser self env url tags)
           = Inr (join [10]
                    (filter (\<lambda>s. s \<noteq> [])
                       (map strip (concat (map spec_visible_strings (html_parser body))))))
       \<and> set (concat (map tag_names (decompose_all non_content_tags (html_parser body))))
             \<inter> {lit ''script'', lit ''style'', lit ''nav'', lit ''footer'', lit ''header''} = {}
       \<and> (\<forall>a s b. list_all isspace a \<and> list_all isspace b
             \<and> (s = [] \<or> (\<not> isspace (hd s) \<and> \<not> isspace (last s))) \<longrightarrow>
             strip (a @ s @ b) = s)
       \<and> list_all isspace [9, 10, 11, 12, 13, 32]
       \<and> (\<forall>x xs. join [10] (x # xs) = x @ concat (map (\<lambda>y. [10] @ y) xs))"
proof -
  have a: "snd (scrape_with_aiohttp html_parser self env url tags)
           = Inr (get_text nl (decompose_all non_content_tags (html_parser body)))"
    using assms by (rule aiohttp_served)
  have hello: "snd (scrape_with_aiohttp html_parser self env url tags) = Inr (lit ''Hello'')
            \<and> snd (choose_path html_parser self env url tags (Some (lit ''aiohttp'')))
                = Inr (lit ''Hello'', lit ''aiohttp'')"
    if "body = hello_document" "html_parser body = hello_tree"
    using a that by (simp add: extract_hello choose_path_aiohttp)
  have rich: "snd (scrape_with_aiohttp html_parser self env url tags)
              = Inr (lit ''Hello'' @ [10] @ lit ''World'')"
    if "body = rich_document" "html_parser body = rich_tree"
    using a that by (simp add: extract_rich)
  have v: "snd (scrape_with_aiohttp html_parser self env url tags)
           = Inr (join [10]
                    (filter (\<lambda>s. s \<noteq> [])
                       (map strip (concat (map spec_visible_strings (html_parser body))))))"
    using a by (simp only: get_text_visible)
  have d: "set (concat (map tag_names (decompose_all non_content_tags (html_parser body))))
             \<inter> {lit ''script'', lit ''style'', lit ''nav'', lit ''footer'', lit ''header''} = {}"
    using decompose_all_leaves_none [of non_content_tags "html_parser body"]
    by (simp add: non_content_tags_def)
  have s: "\<forall>a s b. list_all isspace a \<and> list_all isspace b
             \<and> (s = [] \<or> (\<not> isspace (hd s) \<and> \<not> isspace (last s))) \<longrightarrow>
             strip (a @ s @ b) = s"
    using strip_blanks by blast
  have b: "list_all isspace [9, 10, 11, 12, 13, 32]"
    by (simp add: isspace_def)
  have j: "\<forall>x xs. join [10] (x # xs) = x @ concat (map (\<lambda>y. [10] @ y) xs)"
    by (simp add: join_concat)
  from hello rich a v d s b j show ?thesis
    by blast
qed

theorem hello_document_gives_hello_witness:
  "parse_markup hello_document = hello_tree
   \<and> session_get (world browser_down (serving 200 hello_document)) (timeout default_tool)
        (user_agent default_tool) example_url = serving 200 hello_document
   \<and> snd (scrape_with_aiohttp parse_markup default_tool
            (world browser_down (serving 200 hello_document)) example_url get_default_tags)
       = Inr (lit ''Hello'')
   \<and> parse_markup rich_document = rich_tree
   \<and> snd (scrape_with_aiohttp parse_markup default_tool
            (world browser_down (serving 200 rich_document)) example_url get_default_tags)
       = Inr (lit ''Hello'' @ [10] @ lit ''World'')"
proof -
  let ?w = "world browser_down (serving 200 hello_document)"
  let ?r = "\<lparr>status = 200, status_error = str_nat 200 @ lit '', message=...'',
             text_body = Inr hello_document\<rparr>"
  let ?w' = "world browser_down (serving 200 rich_document)"
  let ?r' = "\<lparr>status = 200, status_error = str_nat 200 @ lit '', message=...'',
              text_body = Inr rich_document\<rparr>"
  have g: "session_get ?w (timeout default_tool) (user_agent default_tool) example_url = Inr ?r"
    by (simp add: serving_def)
  have s: "status ?r < 400"
    by simp
  have t: "text_body ?r = Inr hello_document"
    by simp
  have g': "session_get ?w' (timeout default_tool) (user_agent default_tool) example_url
              = Inr ?r'"
    by (simp add: serving_def)
  have s': "status ?r' < 400"
    by simp
  have t': "text_body ?r' = Inr rich_document"
    by simp
  from hello_document_gives_hello
         [where html_parser = parse_markup and tags = get_default_tags, OF g s t] parse_hello
  have h: "snd (scrape_with_aiohttp parse_markup default_tool ?w example_url get_default_tags)
          = Inr (lit ''Hello'')"
    by blast
  from hello_document_gives_hello
         [where html_parser = parse_markup and tags = get_default_tags, OF g' s' t'] parse_rich
  have h': "snd (scrape_with_aiohttp parse_markup default_tool ?w' example_url get_default_tags)
          = Inr (lit ''Hello'' @ [10] @ lit ''World'')"
    by blast
  have g2: "session_get ?w (timeout default_tool) (user_agent default_tool) example_url
              = serving 200 hello_document"
    by simp
  from parse_hello g2 h parse_rich h' show ?thesis
    by blast
qed

text \<open>
  Claim C9. Two fetches of a page that serves the same body with a status below 400,
  in whatever two worlds and with whatever allow-lists of tags, give the same text on
  the HTTP path: the text is a function of the body. With the method \<^verbatim>\<open>aiohttp\<close>
  both calls end with this text and with the method \<^verbatim>\<open>aiohttp\<close>, and their results
  are the same string when the two durations are rendered alike: what \<^verbatim>\<open>_arun\<close>
  returns, and what \<^verbatim>\<open>_run\<close> returns or raises, under a running event loop or
  not.
\<close>

theorem http_extraction_is_a_function_of_the_body:
  assumes "session_get env1 (timeout self) (user_agent self) url = Inr r1"
    and "status r1 < 400"
    and "text_body r1 = Inr body"
    and "session_get env2 (timeout self) (user_agent self) url = Inr r2"
    and "status r2 < 400"
    and "text_body r2 = Inr body"
  shows "snd (scrape_with_aiohttp hp self env1 url tags1)
           = snd (scrape_with_aiohttp hp self env2 url tags2)
       \<and> snd (scrape_with_aiohttp hp self env1 url tags1)
           = Inr (get_text nl (decompose_all non_content_tags (hp body)))
       \<and> snd (choose_path hp self env1 url tags1 (Some (lit ''aiohttp'')))
           = snd (choose_path hp self env2 url tags2 (Some (lit ''aiohttp'')))
       \<and> (duration_2f env1 = duration_2f env2 \<longrightarrow>
            snd (arun hp self env1 url t1 (Some (lit ''aiohttp'')))
              = snd (arun hp self env2 url t2 (Some (lit ''aiohttp'')))
            \<and> map_sum id snd (run loop_running hp self env1 url t1 (Some (lit ''aiohttp'')))
              = map_sum id snd (run loop_running hp self env2 url t2 (Some (lit ''aiohttp''))))"
proof -
  have a: "snd (scrape_with_aiohttp hp self env1 url ts)
             = Inr (get_text nl (decompose_all non_content_tags (hp body)))" for ts
    using assms(1-3) by (rule aiohttp_served)
  have b: "snd (scrape_with_aiohttp hp self env2 url ts)
             = Inr (get_text nl (decompose_all non_content_tags (hp body)))" for ts
    using assms(4-6) by (rule aiohttp_served)
  have c: "snd (choose_path hp self env1 url ts (Some (lit ''aiohttp'')))
             = snd (choose_path hp self env2 url ts' (Some (lit ''aiohttp'')))" for ts ts'
    by (simp add: choose_path_aiohttp a b)
  have d: "snd (arun hp self env1 url t1 (Some (lit ''aiohttp'')))
              = snd (arun hp self env2 url t2 (Some (lit ''aiohttp'')))"
    if "duration_2f env1 = duration_2f env2"
    using that c [of "tags_or_default t1" "tags_or_default t2"]
    by (simp add: run_arun process_scraping_snd split: sum.splits prod.splits)
  have e: "map_sum id snd (run loop_running hp self env1 url t1 (Some (lit ''aiohttp'')))
              = map_sum id snd (run loop_running hp self env2 url t2 (Some (lit ''aiohttp'')))"
    if "duration_2f env1 = duration_2f env2"
    using d [OF that] by (cases loop_running) (simp_all add: run_arun)
  from a [of tags1] b [of tags2] c [of tags1 tags2] d e show ?thesis
    by simp
qed

theorem http_extraction_is_a_function_of_the_body_witness:
  "snd (scrape_with_aiohttp parse_markup default_tool
          (world browser_down (serving 200 hello_document)) example_url get_default_tags)
     = snd (scrape_with_aiohttp parse_markup default_tool
              (world (Inr [lit ''rendered'']) (serving 204 hello_document)) example_url [])
   \<and> snd (scrape_with_aiohttp parse_markup default_tool
            (world browser_down (serving 200 hello_document)) example_url get_default_tags)
       = Inr (lit ''Hello'')
   \<and> snd (arun parse_markup default_tool (world browser_down (serving 200 hello_document))
            example_url None (Some (lit ''aiohttp'')))
       = snd (arun parse_markup default_tool
                (world (Inr [lit ''rendered'']) (serving 204 hello_document)) example_url
                (Some []) (Some (lit ''aiohttp'')))"
proof -
  let ?w1 = "world browser_down (serving 200 hello_document)"
  let ?w2 = "world (Inr [lit ''rendered'']) (serving 204 hello_document)"
  let ?r1 = "\<lparr>status = 200, status_error = str_nat 200 @ lit '', message=...'',
              text_body = Inr hello_document\<rparr>"
  let ?r2 = "\<lparr>status = 204, status_error = str_nat 204 @ lit '', message=...'',
              text_body = Inr hello_document\<rparr>"
  have g1: "session_get ?w1 (timeout default_tool) (user_agent default_tool) example_url = Inr ?r1"
    by (simp add: serving_def)
  have g2: "session_get ?w2 (timeout default_tool) (user_agent default_tool) example_url = Inr ?r2"
    by (simp add: serving_def)
  have s1: "status ?r1 < 400" and s2: "status ?r2 < 400"
    by simp_all
  have t1: "text_body ?r1 = Inr hello_document" and t2: "text_body ?r2 = Inr hello_document"
    by simp_all
  note th = http_extraction_is_a_function_of_the_body
              [where hp = parse_markup and ?tags1.0 = get_default_tags and ?tags2.0 = "[]"
                 and ?t1.0 = None and ?t2.0 = "Some []", OF g1 s1 t1 g2 s2 t2]
  have d: "duration_2f ?w1 = duration_2f ?w2"
    by simp
  from th have a: "snd (scrape_with_aiohttp parse_markup default_tool ?w1 example_url
                          get_default_tags)
                 = snd (scrape_with_aiohttp parse_markup default_tool ?w2 example_url [])"
    by (rule conjunct1)
  from th have "snd (scrape_with_aiohttp parse_markup default_tool ?w1 example_url
                          get_default_tags)
                 = Inr (get_text nl (decompose_all non_content_tags (parse_markup hello_document)))"
    by blast
  then have b: "snd (scrape_with_aiohttp parse_markup default_tool ?w1 example_url
                          get_default_tags) = Inr (lit ''Hello'')"
    by (simp add: parse_hello extract_hello)
  from th d have c: "snd (arun parse_markup default_tool ?w1 example_url None
                            (Some (lit ''aiohttp'')))
                 = snd (arun parse_markup default_tool ?w2 example_url (Some [])
                          (Some (lit ''aiohttp'')))"
    by blast
  from a b c show ?thesis by blast
qed

text \<open>
  Claim C10. The HTTP path gives the same result, log included, whatever the allow-list
  of tags: \<^verbatim>\<open>_scrape_with_aiohttp\<close> never reads \<open>tags_to_extract\<close>, and so a
  call with the method \<^verbatim>\<open>aiohttp\<close> does not depend on it either, given or left to
  its default. The browser path hands the list to the transformer, so its result can
  change with it: with a transformer that keeps nothing under an empty allow-list, the
  empty list and the list of \<^verbatim>\<open>p\<close> alone give different results.
\<close>

theorem http_path_ignores_tags:
  "scrape_with_aiohttp hp self env url tags1 = scrape_with_aiohttp hp self env url tags2
   \<and> process_scraping hp self env url (Some tags1) (Some (lit ''aiohttp''))
       = process_scraping hp self env url (Some tags2) (Some (lit ''aiohttp''))
   \<and> process_scraping hp self env url None (Some (lit ''aiohttp''))
       = process_scraping hp self env url (Some tags2) (Some (lit ''aiohttp''))
   \<and> scrape_with_chromium (world (Inr [lit ''page'']) (serving 200 [])) example_url []
       \<noteq> scrape_with_chromium (world (Inr [lit ''page'']) (serving 200 [])) example_url [lit ''p'']"
proof -
  have a: "scrape_with_aiohttp hp self env url t = scrape_with_aiohttp hp self env url t'" for t t'
    by (simp add: scrape_with_aiohttp_def)
  have c: "choose_path hp self env url t (Some (lit ''aiohttp''))
         = choose_path hp self env url t' (Some (lit ''aiohttp''))" for t t'
    by (simp only: choose_path_aiohttp a [of t t'])
  have p: "process_scraping hp self env url t (Some (lit ''aiohttp''))
         = process_scraping hp self env url t' (Some (lit ''aiohttp''))" for t t'
    by (simp only: process_scraping_def Let_def c [of "tags_or_default t" "tags_or_default t'"])
  have d: "scrape_with_chromium (world (Inr [lit ''page'']) (serving 200 [])) example_url []
       \<noteq> scrape_with_chromium (world (Inr [lit ''page'']) (serving 200 [])) example_url [lit ''p'']"
    by (simp add: scrape_with_chromium_def world_def Let_def)
  show ?thesis using a [of tags1 tags2] p [of "Some tags1" "Some tags2"] p [of None "Some tags2"] d
    by simp
qed

end
